theory Spec2Isabelle
  imports Main "HOL-Library.AList" "HOL-Library.Word"
begin

section \<open>JavaScript values\<close>

text \<open>
  The presence bridge (\<^verbatim>\<open>silly.tsx\<close>) builds its outgoing activity as a plain
  JavaScript object and prunes it with a dynamic \<^verbatim>\<open>for ... in\<close> loop, and it reads
  a fetched JSON document of type \<^verbatim>\<open>any\<close>. Both are modelled by one type of
  JavaScript values. An object is an association list in insertion order with distinct
  keys. Numbers are integers: every number the program computes with is a count of
  seconds or an enum code.
\<close>

datatype jsval =
    JUndefined
  | JNull
  | JBool bool
  | JNum int
  | JStr string
  | JArr "jsval list"
  | JObj "(string \<times> jsval) list"

type_synonym obj = "(string \<times> jsval) list"

text \<open>Truthiness, as tested by \<^verbatim>\<open>!v\<close>, \<^verbatim>\<open>a && b\<close>, \<^verbatim>\<open>a || b\<close> and \<^verbatim>\<open>a ? b : c\<close>.\<close>

fun truthy :: "jsval \<Rightarrow> bool" where
  "truthy JUndefined = False"
| "truthy JNull = False"
| "truthy (JBool b) = b"
| "truthy (JNum n) = (n \<noteq> 0)"
| "truthy (JStr s) = (s \<noteq> [])"
| "truthy (JArr xs) = True"
| "truthy (JObj kv) = True"

text \<open>Reading a property of an object: \<^verbatim>\<open>o[k]\<close> is \<^verbatim>\<open>undefined\<close> for a missing key.\<close>

definition obj_get :: "obj \<Rightarrow> string \<Rightarrow> jsval" where
  "obj_get ob k = (case map_of ob k of None \<Rightarrow> JUndefined | Some v \<Rightarrow> v)"

text \<open>
  \<^verbatim>\<open>v.length\<close> of a value that is neither \<^verbatim>\<open>undefined\<close> nor \<^verbatim>\<open>null\<close>: strings and
  arrays have one, an object has one only as a key of its own, numbers and booleans
  have none.
\<close>

fun js_length :: "jsval \<Rightarrow> jsval" where
  "js_length (JStr s) = JNum (int (length s))"
| "js_length (JArr xs) = JNum (int (length xs))"
| "js_length (JObj kv) = obj_get kv ''length''"
| "js_length v = JUndefined"

text \<open>An optional string of the payload, as the value the property read gives.\<close>

fun opt_str :: "string option \<Rightarrow> jsval" where
  "opt_str None = JUndefined"
| "opt_str (Some s) = JStr s"

text \<open>\<^verbatim>\<open>xs[0]\<close> of an array: \<^verbatim>\<open>undefined\<close> when the array is empty.\<close>

fun first_elem :: "string list \<Rightarrow> jsval" where
  "first_elem [] = JUndefined"
| "first_elem (x # xs) = JStr x"

section \<open>Strings and numbers\<close>

text \<open>\<^verbatim>\<open>Number.prototype.toString\<close> on an integer: decimal digits, a minus sign first.\<close>

definition digit_char :: "nat \<Rightarrow> char" where
  "digit_char d = ''0123456789'' ! d"

fun nat_toString :: "nat \<Rightarrow> string" where
  "nat_toString n =
     (if n < 10 then [digit_char n] else nat_toString (n div 10) @ [digit_char (n mod 10)])"

declare nat_toString.simps [simp del]

definition toString :: "int \<Rightarrow> string" where
  "toString i = (if i < 0 then CHR ''-'' # nat_toString (nat (- i)) else nat_toString (nat i))"

text \<open>\<^verbatim>\<open>s.padStart(n, c)\<close> with a one-character filler: never shortens the string.\<close>

definition padStart :: "nat \<Rightarrow> char \<Rightarrow> string \<Rightarrow> string" where
  "padStart n c s = replicate (n - length s) c @ s"

text \<open>
  The remainder operator \<^verbatim>\<open>%\<close> truncates towards zero: the result has the sign of the
  dividend (\<^verbatim>\<open>-5 % 60\<close> is \<^verbatim>\<open>-5\<close>), unlike \<open>mod\<close> on \<open>int\<close>.
\<close>

definition js_rem :: "int \<Rightarrow> int \<Rightarrow> int" where
  "js_rem a b = (if a < 0 then - ((- a) mod \<bar>b\<bar>) else a mod \<bar>b\<bar>)"

text \<open>
  \<^verbatim>\<open>formatTime\<close> (silly.tsx, lines 345-349). \<^verbatim>\<open>Math.floor(seconds / 60)\<close> on an
  integer is \<open>div\<close>, which rounds down on \<open>int\<close>.
\<close>

definition formatTime :: "int \<Rightarrow> string" where
  "formatTime seconds =
     (let minutes = seconds div 60;
          remainingSeconds = js_rem seconds 60
      in padStart 2 CHR ''0'' (toString minutes) @ '':'' @
         padStart 2 CHR ''0'' (toString remainingSeconds))"

section \<open>The presence bridge: data model (silly.tsx, lines 31-78)\<close>

datatype ActivityType = PLAYING | LISTENING | WATCHING | COMPETING

text \<open>The numeric values of the \<^verbatim>\<open>const enum ActivityType\<close>.\<close>

fun type_code :: "ActivityType \<Rightarrow> int" where
  "type_code PLAYING = 0"
| "type_code LISTENING = 2"
| "type_code WATCHING = 3"
| "type_code COMPETING = 5"

text \<open>\<^verbatim>\<open>ActivityFlag.INSTANCE = 1 << 0\<close>.\<close>

definition INSTANCE :: int where
  "INSTANCE = 1"

text \<open>
  The inbound payload \<^verbatim>\<open>pmActivity\<close>, typed by the interface \<^verbatim>\<open>Activity\<close>. A field the
  interface marks optional, or that the code reads through \<^verbatim>\<open>?.\<close>, \<^verbatim>\<open>??\<close> or a truth
  test, is an \<open>option\<close>. \<open>ts_start\<close> and \<open>ts_end\<close> are the \<^verbatim>\<open>start\<close> and \<^verbatim>\<open>end\<close> of
  \<^verbatim>\<open>timestamps\<close>.
\<close>

record ActivityAssets =
  large_image :: "string option"
  large_text :: "string option"
  small_image :: "string option"
  small_text :: "string option"

record Timestamps =
  ts_start :: "int option"
  ts_end :: "int option"

record Metadata =
  button_urls :: "string list option"

record RawActivity =
  application_id :: string
  state :: string
  details :: "string option"
  timestamps :: "Timestamps option"
  assets :: "ActivityAssets option"
  buttons :: "string list option"
  metadata :: "Metadata option"

text \<open>\<^verbatim>\<open>PublicApp\<close>: the application descriptor the host lookup returns.\<close>

record PublicApp =
  app_id :: string
  app_name :: string
  app_icon :: string
  app_statusType :: "ActivityType option"
  app_flags :: int

text \<open>\<^verbatim>\<open>settings.store\<close>. A select option with no default is \<^verbatim>\<open>undefined\<close> until chosen.\<close>

record settings =
  showButtons :: bool
  manualShare :: bool
  hideViewChannel :: bool
  statusType :: "ActivityType option"

text \<open>
  What \<^verbatim>\<open>fetch\<close> resolves to: the \<^verbatim>\<open>ok\<close> flag and the outcome of \<^verbatim>\<open>res.json()\<close>,
  \<open>None\<close> when the body does not parse.
\<close>

record response =
  ok :: bool
  json :: "jsval option"

datatype exn = TypeError | SyntaxError | Rejected

text \<open>
  The collaborators the file imports from the host, as the environment of a run:
  the settings store, the application lookup, \<^verbatim>\<open>fetch\<close>, the asset manager and the
  clock (\<^verbatim>\<open>Date.now()\<close>, in milliseconds). A lookup that gives \<open>None\<close> is a promise
  that rejects.
\<close>

record env =
  store :: settings
  lookupRpcApp :: "string \<Rightarrow> PublicApp option"
  fetch :: "string \<Rightarrow> response option"
  getAsset :: "string \<Rightarrow> string \<Rightarrow> string option"
  Date_now :: int

text \<open>
  The module state: the cache \<^verbatim>\<open>apps\<close>, and the external lookups made so far, in
  order.
\<close>

datatype call = Lookup string | Fetch string

record cache_state =
  apps :: "string \<rightharpoonup> PublicApp"
  calls :: "call list"

section \<open>Category inference (silly.tsx, lines 351-386)\<close>

text \<open>
  Reading a property of a value of type \<^verbatim>\<open>any\<close>: a \<^verbatim>\<open>TypeError\<close> on \<^verbatim>\<open>undefined\<close> and
  \<^verbatim>\<open>null\<close>. The keys read below are names, never array indices.
\<close>

fun js_prop :: "jsval \<Rightarrow> string \<Rightarrow> exn + jsval" where
  "js_prop JUndefined k = Inl TypeError"
| "js_prop JNull k = Inl TypeError"
| "js_prop (JObj kv) k = Inr (obj_get kv k)"
| "js_prop v k = Inr (if k = ''length'' then js_length v else JUndefined)"

text \<open>\<^verbatim>\<open>String.prototype.includes\<close>: the pattern occurs somewhere in the string.\<close>

fun includes_str :: "'a list \<Rightarrow> 'a list \<Rightarrow> bool" where
  "includes_str [] pat = (pat = [])"
| "includes_str (c # cs) pat = (take (length pat) (c # cs) = pat \<or> includes_str cs pat)"

text \<open>
  \<^verbatim>\<open>tags.includes(x)\<close>: arrays and strings have the method; on any other value the
  call is a \<^verbatim>\<open>TypeError\<close>.
\<close>

fun tags_includes :: "jsval \<Rightarrow> string \<Rightarrow> exn + bool" where
  "tags_includes (JArr xs) x = Inr (JStr x \<in> set xs)"
| "tags_includes (JStr s) x = Inr (includes_str s x)"
| "tags_includes v x = Inl TypeError"

text \<open>\<^verbatim>\<open>tags.some(tag => ['video', 'media', 'streaming'].includes(tag))\<close>: arrays only.\<close>

fun tags_some :: "jsval \<Rightarrow> exn + bool" where
  "tags_some (JArr xs) =
     Inr (list_ex (\<lambda>tag. tag \<in> set [JStr ''video'', JStr ''media'', JStr ''streaming'']) xs)"
| "tags_some v = Inl TypeError"

text \<open>The \<^verbatim>\<open>switch\<close> on \<^verbatim>\<open>metadata.category\<close> (lines 366-381), inside the \<^verbatim>\<open>try\<close>.\<close>

definition category_switch :: "jsval \<Rightarrow> exn + ActivityType option" where
  "category_switch md =
     (case js_prop md ''category'' of
        Inl e \<Rightarrow> Inl e
      | Inr c \<Rightarrow>
          if c = JStr ''socials'' then
            (case js_prop md ''tags'' of
               Inl e \<Rightarrow> Inl e
             | Inr tags \<Rightarrow>
                 (case tags_includes tags ''video'' of
                    Inl e \<Rightarrow> Inl e
                  | Inr b \<Rightarrow> Inr (if b then Some WATCHING else None)))
          else if c = JStr ''anime'' then
            (case js_prop md ''tags'' of
               Inl e \<Rightarrow> Inl e
             | Inr tags \<Rightarrow>
                 (case tags_some tags of
                    Inl e \<Rightarrow> Inl e
                  | Inr b \<Rightarrow> Inr (if b then Some WATCHING else None)))
          else if c = JStr ''music'' then Inr (Some LISTENING)
          else if c = JStr ''videos'' then Inr (Some WATCHING)
          else Inr None)"

text \<open>The \<^verbatim>\<open>try\<close> block: parse the body, then switch.\<close>

definition try_metadata :: "response \<Rightarrow> exn + ActivityType option" where
  "try_metadata res =
     (case json res of None \<Rightarrow> Inl SyntaxError | Some md \<Rightarrow> category_switch md)"

text \<open>What follows the \<^verbatim>\<open>fetch\<close> (lines 362-385): the \<^verbatim>\<open>ok\<close> test and the \<^verbatim>\<open>try/catch\<close>.\<close>

definition status_of_response :: "response \<Rightarrow> ActivityType option" where
  "status_of_response res =
     (if \<not> ok res then Some PLAYING
      else (case try_metadata res of Inl e \<Rightarrow> Some PLAYING | Inr r \<Rightarrow> r))"

definition is_letter :: "char \<Rightarrow> bool" where
  "is_letter c = (c \<in> set ''abcdefghijklmnopqrstuvwxyzABCDEFGHIJKLMNOPQRSTUVWXYZ'')"

definition is_digit :: "char \<Rightarrow> bool" where
  "is_digit c = (c \<in> set ''0123456789'')"

text \<open>The directory of the repository a name falls in (lines 352-359).\<close>

fun bucket :: "string \<Rightarrow> string" where
  "bucket [] = ''%23''"
| "bucket (c # cs) = (if is_letter c then [c] else if is_digit c then ''0-9'' else ''%23'')"

definition metadata_url :: "string \<Rightarrow> string" where
  "metadata_url nm =
     ''https://raw.githubusercontent.com/PreMiD/Presences/main/websites/'' @ bucket nm @
     ''/'' @ nm @ ''/metadata.json''"

definition determineStatusType :: "env \<Rightarrow> PublicApp \<Rightarrow> exn + ActivityType option" where
  "determineStatusType e info =
     (case fetch e (metadata_url (app_name info)) of
        None \<Rightarrow> Inl Rejected
      | Some res \<Rightarrow> Inr (status_of_response res))"

section \<open>The descriptor cache (silly.tsx, lines 92-107)\<close>

text \<open>
  Line 101: \<^verbatim>\<open>activityType ? activityType : settings.store.statusType\<close>. The test is
  for truthiness, and the code of \<open>PLAYING\<close> is \<open>0\<close>.
\<close>

definition pick_statusType :: "ActivityType option \<Rightarrow> ActivityType option \<Rightarrow> ActivityType option" where
  "pick_statusType activityType fallback =
     (case activityType of
        None \<Rightarrow> fallback
      | Some t \<Rightarrow> if type_code t \<noteq> 0 then Some t else fallback)"

definition getApp :: "env \<Rightarrow> cache_state \<Rightarrow> string \<Rightarrow> exn + (PublicApp \<times> cache_state)" where
  "getApp e s applicationId =
     (case apps s applicationId of
        Some cached \<Rightarrow> Inr (cached, s)
      | None \<Rightarrow>
          (case lookupRpcApp e applicationId of
             None \<Rightarrow> Inl Rejected
           | Some application \<Rightarrow>
               (case determineStatusType e application of
                  Inl x \<Rightarrow> Inl x
                | Inr activityType \<Rightarrow>
                    (let app = application
                           \<lparr>app_statusType := pick_statusType activityType (statusType (store e))\<rparr>
                     in Inr (app,
                          s\<lparr>apps := (apps s)(applicationId \<mapsto> app),
                            calls := calls s @
                              [Lookup applicationId, Fetch (metadata_url (app_name application))]\<rparr>)))))"

definition getAppAsset :: "env \<Rightarrow> string \<Rightarrow> string \<Rightarrow> exn + string" where
  "getAppAsset e appId key =
     (case getAsset e appId key of None \<Rightarrow> Inl Rejected | Some img \<Rightarrow> Inr img)"

section \<open>Activity synthesis (silly.tsx, lines 264-340)\<close>

text \<open>
  Assigning to a property: an existing key keeps its place, a new key goes last, which
  is what \<open>AList.update\<close> does.
\<close>

definition obj_set :: "string \<Rightarrow> jsval \<Rightarrow> obj \<Rightarrow> obj" where
  "obj_set k v ob = AList.update k v ob"

text \<open>\<^verbatim>\<open>version: "1.2.0"\<close> of the plugin, read as \<^verbatim>\<open>this.version\<close> on line 288.\<close>

definition version :: string where
  "version = ''1.2.0''"

text \<open>\<^verbatim>\<open>pmActivity.assets?.large_image ?? "guh"\<close> and its sibling.\<close>

definition large_key :: "RawActivity \<Rightarrow> string" where
  "large_key pm =
     (case assets pm of
        None \<Rightarrow> ''guh''
      | Some a \<Rightarrow> (case large_image a of None \<Rightarrow> ''guh'' | Some k \<Rightarrow> k))"

definition small_key :: "RawActivity \<Rightarrow> string" where
  "small_key pm =
     (case assets pm of
        None \<Rightarrow> ''guhh''
      | Some a \<Rightarrow> (case small_image a of None \<Rightarrow> ''guhh'' | Some k \<Rightarrow> k))"

text \<open>\<^verbatim>\<open>pmActivity.assets?.small_text || "hello there :3"\<close>: the empty string is falsy.\<close>

definition small_caption :: "RawActivity \<Rightarrow> string" where
  "small_caption pm =
     (case assets pm of
        None \<Rightarrow> ''hello there :3''
      | Some a \<Rightarrow>
          (case small_text a of
             None \<Rightarrow> ''hello there :3''
           | Some t \<Rightarrow> if t = [] then ''hello there :3'' else t))"

text \<open>\<^verbatim>\<open>appInfo.statusType || ActivityType.PLAYING\<close> (line 276).\<close>

definition activity_type :: "PublicApp \<Rightarrow> ActivityType" where
  "activity_type appInfo =
     (case app_statusType appInfo of
        None \<Rightarrow> PLAYING
      | Some t \<Rightarrow> if type_code t \<noteq> 0 then t else PLAYING)"

text \<open>The object literal of lines 271-283; \<open>li\<close> and \<open>si\<close> are the resolved images.\<close>

definition initial_activity :: "PublicApp \<Rightarrow> RawActivity \<Rightarrow> string \<Rightarrow> string \<Rightarrow> obj" where
  "initial_activity appInfo pm li si =
     [(''application_id'', JStr (application_id pm)),
      (''name'', JStr (app_name appInfo)),
      (''details'', opt_str (details pm)),
      (''state'', JStr (state pm)),
      (''type'', JNum (type_code (activity_type appInfo))),
      (''flags'', JNum INSTANCE),
      (''assets'', JObj
         [(''large_image'', JStr li),
          (''small_image'', JStr si),
          (''small_text'', JStr (small_caption pm))])]"

text \<open>Lines 285-292: a Playing activity gets the branded caption.\<close>

definition playing_step :: "RawActivity \<Rightarrow> string \<Rightarrow> string \<Rightarrow> obj \<Rightarrow> obj" where
  "playing_step pm li si activity =
     (if obj_get activity ''type'' = JNum (type_code PLAYING) then
        obj_set ''assets'' (JObj
          [(''large_image'', JStr li),
           (''large_text'', JStr (''vcMiD v'' @ version)),
           (''small_image'', JStr si),
           (''small_text'', JStr (small_caption pm))]) activity
      else activity)"

text \<open>The inbound \<^verbatim>\<open>metadata\<close> envelope as an object.\<close>

fun metadata_val :: "Metadata option \<Rightarrow> jsval" where
  "metadata_val None = JUndefined"
| "metadata_val (Some m) =
     JObj (case button_urls m of None \<Rightarrow> [] | Some us \<Rightarrow> [(''button_urls'', JArr (map JStr us))])"

text \<open>
  Lines 296-299, the branch that keeps one button. The guard reads
  \<^verbatim>\<open>activity.metadata\<close> of the object under construction; the assignment writes into that
  object when there is one.
\<close>

definition first_button_only :: "RawActivity \<Rightarrow> string list \<Rightarrow> obj \<Rightarrow> obj" where
  "first_button_only pm bs activity =
     (let activity1 = obj_set ''buttons'' (JArr [first_elem bs]) activity
      in case metadata pm of
           None \<Rightarrow> activity1
         | Some m \<Rightarrow>
             (case button_urls m of
                None \<Rightarrow> activity1
              | Some us \<Rightarrow>
                  if truthy (obj_get activity1 ''metadata'') then
                    (case obj_get activity1 ''metadata'' of
                       JObj mo \<Rightarrow>
                         obj_set ''metadata''
                           (JObj (obj_set ''button_urls'' (JArr [first_elem us]) mo)) activity1
                     | other \<Rightarrow> activity1)
                  else activity1))"

text \<open>Lines 294-304. An array is truthy even when empty.\<close>

definition buttons_step :: "env \<Rightarrow> PublicApp \<Rightarrow> RawActivity \<Rightarrow> obj \<Rightarrow> obj" where
  "buttons_step e appInfo pm activity =
     (case buttons pm of
        None \<Rightarrow> activity
      | Some bs \<Rightarrow>
          if showButtons (store e) then
            (if app_name appInfo = ''YouTube'' \<and> hideViewChannel (store e) then
               first_button_only pm bs activity
             else
               obj_set ''metadata'' (metadata_val (metadata pm))
                 (obj_set ''buttons'' (JArr (map JStr bs)) activity))
          else activity)"

text \<open>A timestamp that passes a truth test: present and not zero.\<close>

fun truthy_num :: "int option \<Rightarrow> int option" where
  "truthy_num None = None"
| "truthy_num (Some n) = (if n = 0 then None else Some n)"

text \<open>The inbound \<^verbatim>\<open>timestamps\<close> object, copied by reference on line 310.\<close>

definition timestamps_val :: "Timestamps \<Rightarrow> jsval" where
  "timestamps_val ts =
     JObj ((case ts_start ts of None \<Rightarrow> [] | Some s \<Rightarrow> [(''start'', JNum s)]) @
           (case ts_end ts of None \<Rightarrow> [] | Some n \<Rightarrow> [(''end'', JNum n)]))"

text \<open>\<^verbatim>\<open>activity.assets.large_text = caption\<close>.\<close>

definition set_large_text :: "string \<Rightarrow> obj \<Rightarrow> obj" where
  "set_large_text caption activity =
     (case obj_get activity ''assets'' of
        JObj a \<Rightarrow> obj_set ''assets'' (JObj (obj_set ''large_text'' (JStr caption) a)) activity
      | other \<Rightarrow> activity)"

text \<open>\<^verbatim>\<open>{...v}\<close>: the keys of an object, nothing for \<^verbatim>\<open>undefined\<close>.\<close>

fun spread :: "jsval \<Rightarrow> obj" where
  "spread (JObj kv) = kv"
| "spread v = []"

text \<open>\<^verbatim>\<open>Math.floor(Date.now() / 1000)\<close>.\<close>

definition now_seconds :: "env \<Rightarrow> int" where
  "now_seconds e = Date_now e div 1000"

text \<open>Lines 307-327.\<close>

definition timestamps_step :: "env \<Rightarrow> RawActivity \<Rightarrow> obj \<Rightarrow> obj" where
  "timestamps_step e pm activity =
     (case timestamps pm of
        None \<Rightarrow> activity
      | Some ts \<Rightarrow>
          (case truthy_num (ts_start ts) of
             Some start \<Rightarrow>
               (case truthy_num (ts_end ts) of
                  Some end_ts \<Rightarrow> obj_set ''timestamps'' (timestamps_val ts) activity
                | None \<Rightarrow>
                    obj_set ''timestamps'' (JObj [(''start'', JNum start)])
                      (if obj_get activity ''type'' = JNum (type_code WATCHING) then
                         set_large_text (formatTime (now_seconds e - start) @ '' elapsed'') activity
                       else activity))
           | None \<Rightarrow>
               (case truthy_num (ts_end ts) of
                  Some end_ts \<Rightarrow>
                    (let activity1 =
                       (if obj_get activity ''type'' = JNum (type_code WATCHING) then
                          set_large_text (formatTime (end_ts - now_seconds e) @ '' left'') activity
                        else activity)
                     in obj_set ''timestamps''
                          (JObj (obj_set ''end'' (JNum end_ts) (spread (obj_get activity1 ''timestamps''))))
                          activity1)
                | None \<Rightarrow> activity)))"

text \<open>
  Lines 330-335, one turn of the loop: \<^verbatim>\<open>type\<close> is skipped, a key whose value is falsy or
  has length zero is deleted.
\<close>

definition prune_key :: "string \<Rightarrow> obj \<Rightarrow> obj" where
  "prune_key k activity =
     (if k = ''type'' then activity
      else (let v = obj_get activity k
            in if truthy v then
                 (if js_length v = JNum 0 then AList.delete k activity else activity)
               else AList.delete k activity))"

text \<open>The loop over the keys the object has when the loop starts.\<close>

definition prune :: "obj \<Rightarrow> obj" where
  "prune activity = fold prune_key (map fst activity) activity"

text \<open>Lines 271-327: the object as it stands when the pruning loop starts.\<close>

definition assemble :: "env \<Rightarrow> PublicApp \<Rightarrow> RawActivity \<Rightarrow> string \<Rightarrow> string \<Rightarrow> obj" where
  "assemble e appInfo pm li si =
     timestamps_step e pm (buttons_step e appInfo pm
       (playing_step pm li si (initial_activity appInfo pm li si)))"

text \<open>
  \<^verbatim>\<open>getActivity\<close>: \<open>None\<close> is the bare \<^verbatim>\<open>return\<close> of line 268. The assets are resolved
  again on lines 287 and 289 with the same arguments; the environment answers the same.
\<close>

definition getActivity :: "env \<Rightarrow> cache_state \<Rightarrow> RawActivity \<Rightarrow> exn + (obj option \<times> cache_state)" where
  "getActivity e s pm =
     (case getApp e s (application_id pm) of
        Inl x \<Rightarrow> Inl x
      | Inr (appInfo, s') \<Rightarrow>
          if app_name appInfo = [] \<or> app_name appInfo = ''PreMiD'' then Inr (None, s')
          else
            (case getAppAsset e (application_id pm) (large_key pm) of
               Inl x \<Rightarrow> Inl x
             | Inr li \<Rightarrow>
                 (case getAppAsset e (application_id pm) (small_key pm) of
                    Inl x \<Rightarrow> Inl x
                  | Inr si \<Rightarrow> Inr (Some (prune (assemble e appInfo pm li si)), s'))))"

section \<open>The text bridge (vrcText.ts)\<close>

text \<open>
  A JavaScript string is a sequence of UTF-16 code units, and \<^verbatim>\<open>trim\<close>, \<^verbatim>\<open>startsWith\<close> and
  \<^verbatim>\<open>replace\<close> work on code units. \<open>units\<close> writes an ASCII literal of the source as code
  units.
\<close>

type_synonym jstring = "16 word list"

definition units :: "string \<Rightarrow> jstring" where
  "units s = map of_char s"

text \<open>
  \<^verbatim>\<open>s.replace(pat, rep)\<close> with a string pattern replaces the first occurrence only.
  The replacements used here are empty, so no \<^verbatim>\<open>$\<close> pattern is involved.
\<close>

fun replace :: "'a list \<Rightarrow> 'a list \<Rightarrow> 'a list \<Rightarrow> 'a list" where
  "replace [] pat rep = (if pat = [] then rep else [])"
| "replace (c # cs) pat rep =
     (if take (length pat) (c # cs) = pat then rep @ drop (length pat) (c # cs)
      else c # replace cs pat rep)"

text \<open>
  \<^verbatim>\<open>s.trim()\<close> drops white space and line terminators at both ends: tab, line feed,
  vertical tab, form feed, carriage return, space, no-break space, the space separators
  U+1680, U+2000 to U+200A, U+202F, U+205F and U+3000, the line and paragraph separators
  U+2028 and U+2029, and the byte order mark U+FEFF. Each is one code unit.
\<close>

definition is_space :: "16 word \<Rightarrow> bool" where
  "is_space c = (c \<in> set
     [0x0009, 0x000A, 0x000B, 0x000C, 0x000D, 0x0020, 0x00A0, 0x1680,
      0x2000, 0x2001, 0x2002, 0x2003, 0x2004, 0x2005, 0x2006, 0x2007, 0x2008, 0x2009, 0x200A,
      0x2028, 0x2029, 0x202F, 0x205F, 0x3000, 0xFEFF])"

definition trim :: "jstring \<Rightarrow> jstring" where
  "trim s = rev (dropWhile is_space (rev (dropWhile is_space s)))"

definition startsWith :: "'a list \<Rightarrow> 'a list \<Rightarrow> bool" where
  "startsWith s pat = (take (length pat) s = pat)"

datatype ReadyState = CONNECTING | OPEN | CLOSING | CLOSED

record BridgeMsg =
  content :: jstring
  sendNow :: bool
  popNoise :: bool

text \<open>
  What is handed to \<^verbatim>\<open>ws.send\<close>: a bare text, or \<^verbatim>\<open>JSON.stringify\<close> of a \<^verbatim>\<open>BridgeMsg\<close>.
\<close>

datatype frame = Text jstring | Json BridgeMsg

text \<open>The one field of the host's \<^verbatim>\<open>MessageObject\<close> the handler reads and writes.\<close>

record MessageObject =
  msg_content :: jstring

text \<open>
  The state the handler works on: the socket's \<^verbatim>\<open>readyState\<close>, the frames the socket has
  taken for transmission so far, the \<^verbatim>\<open>override\<close> setting, and whether the \<^verbatim>\<open>connect\<close>
  command and the pre-send listener are registered.
\<close>

record bridge =
  readyState :: ReadyState
  sent :: "frame list"
  override :: bool
  connect_registered :: bool
  preSend_registered :: bool

text \<open>
  \<^verbatim>\<open>WebSocket.send\<close>, as the platform defines it: it throws \<^verbatim>\<open>InvalidStateError\<close> while the
  socket is connecting, queues the frame while the socket is open, and returns without
  transmitting anything once the socket is closing or closed.
\<close>

datatype ws_exn = InvalidStateError

definition ws_send :: "frame \<Rightarrow> bridge \<Rightarrow> ws_exn + bridge" where
  "ws_send f b =
     (case readyState b of
        CONNECTING \<Rightarrow> Inl InvalidStateError
      | OPEN \<Rightarrow> Inr (b\<lparr>sent := sent b @ [f]\<rparr>)
      | CLOSING \<Rightarrow> Inr b
      | CLOSED \<Rightarrow> Inr b)"

text \<open>\<^verbatim>\<open>sendTyping\<close> (lines 175-177).\<close>

definition sendTyping :: "bool \<Rightarrow> bridge \<Rightarrow> ws_exn + bridge" where
  "sendTyping isTyping b =
     ws_send (Text (if isTyping then units ''typing:true'' else units ''typing:false'')) b"

text \<open>\<^verbatim>\<open>sendWsMessage(msg, pop = true, now = true)\<close> (lines 164-172).\<close>

definition sendWsMessage :: "jstring \<Rightarrow> bool \<Rightarrow> bool \<Rightarrow> bridge \<Rightarrow> ws_exn + bridge" where
  "sendWsMessage msg pop now b =
     (case ws_send (Json \<lparr>content = msg, sendNow = now, popNoise = pop\<rparr>) b of
        Inl x \<Rightarrow> Inl x
      | Inr b1 \<Rightarrow> sendTyping False b1)"

text \<open>\<^verbatim>\<open>stop\<close> (lines 120-123).\<close>

definition stop :: "bridge \<Rightarrow> bridge" where
  "stop b = b\<lparr>connect_registered := False, preSend_registered := False\<rparr>"

text \<open>
  The three statements the routing branches share (lines 99-101, 106-108, 113-115):
  \<^verbatim>\<open>sendTyping(false)\<close>, \<^verbatim>\<open>sendWsMessage(content, pop)\<close>, then \<^verbatim>\<open>msg.content = ""\<close>. An
  exception leaves the handler before the message is cleared.
\<close>

definition send_and_clear ::
  "jstring \<Rightarrow> bool \<Rightarrow> MessageObject \<Rightarrow> bridge \<Rightarrow> ws_exn + (MessageObject \<times> bridge)" where
  "send_and_clear stripped pop msg b =
     (case sendTyping False b of
        Inl x \<Rightarrow> Inl x
      | Inr b1 \<Rightarrow>
          (case sendWsMessage stripped pop True b1 of
             Inl x \<Rightarrow> Inl x
           | Inr b2 \<Rightarrow> Inr (msg\<lparr>msg_content := []\<rparr>, b2)))"

text \<open>
  \<^verbatim>\<open>onSend\<close> (lines 85-118): the message as the host sees it afterwards and the state, or
  the exception the handler leaves with. \<open>stripped\<close> is the local \<^verbatim>\<open>content\<close>, \<open>trimmed\<close>
  the local \<^verbatim>\<open>trim\<close>.
\<close>

definition onSend :: "bridge \<Rightarrow> MessageObject \<Rightarrow> ws_exn + (MessageObject \<times> bridge)" where
  "onSend b msg =
     (if readyState b = CLOSED then Inr (msg, stop b)
      else
        (let stripped = replace (replace (msg_content msg) (units ''=='') []) (units ''=/='') [];
             trimmed = trim (msg_content msg)
         in if override b then
              (if startsWith trimmed (units ''=='') then Inr (msg\<lparr>msg_content := stripped\<rparr>, b)
               else send_and_clear stripped True msg b)
            else if startsWith trimmed (units ''=='') then send_and_clear stripped True msg b
            else if startsWith trimmed (units ''=/='') then send_and_clear stripped False msg b
            else Inr (msg, b)))"

section \<open>Notions the properties are stated with\<close>

text \<open>What the pruning loop keeps: a value that is truthy and whose length is not zero.\<close>

definition keeps :: "jsval \<Rightarrow> bool" where
  "keeps v = (truthy v \<and> js_length v \<noteq> JNum 0)"

text \<open>The \<^verbatim>\<open>assets\<close> object of the literal on lines 278-282.\<close>

definition base_assets :: "RawActivity \<Rightarrow> string \<Rightarrow> string \<Rightarrow> obj" where
  "base_assets pm li si =
     [(''large_image'', JStr li), (''small_image'', JStr si),
      (''small_text'', JStr (small_caption pm))]"

text \<open>\<^verbatim>\<open>assets.large_text\<close> of an activity object, \<open>None\<close> when the key is absent.\<close>

definition large_text_of :: "obj \<Rightarrow> jsval option" where
  "large_text_of activity =
     (case map_of activity ''assets'' of Some (JObj a) \<Rightarrow> map_of a ''large_text'' | other \<Rightarrow> None)"

text \<open>
  The timestamp field as the specification describes it (section 4.2, step 7): both ends
  present, the pair as it came; one end present, that end alone; neither, no field.
  Present means passing the truth test.
\<close>

definition spec_timestamps :: "Timestamps option \<Rightarrow> jsval option" where
  "spec_timestamps t =
     (case t of
        None \<Rightarrow> None
      | Some ts \<Rightarrow>
          (case truthy_num (ts_start ts) of
             Some a \<Rightarrow>
               (case truthy_num (ts_end ts) of
                  Some b \<Rightarrow> Some (timestamps_val ts)
                | None \<Rightarrow> Some (JObj [(''start'', JNum a)]))
           | None \<Rightarrow>
               (case truthy_num (ts_end ts) of
                  Some b \<Rightarrow> Some (JObj [(''end'', JNum b)])
                | None \<Rightarrow> None)))"

text \<open>
  The category table as the specification words it (section 4.3), read off a parsed
  document: its \<^verbatim>\<open>category\<close> field and the list of its \<^verbatim>\<open>tags\<close>.
\<close>

definition doc_field :: "jsval \<Rightarrow> string \<Rightarrow> jsval" where
  "doc_field md k = (case md of JObj kv \<Rightarrow> obj_get kv k | other \<Rightarrow> JUndefined)"

definition doc_tags :: "jsval \<Rightarrow> jsval list" where
  "doc_tags md = (case doc_field md ''tags'' of JArr ts \<Rightarrow> ts | other \<Rightarrow> [])"

definition spec_category :: "jsval \<Rightarrow> ActivityType option" where
  "spec_category md =
     (if doc_field md ''category'' = JStr ''socials'' \<and> JStr ''video'' \<in> set (doc_tags md)
        then Some WATCHING
      else if doc_field md ''category'' = JStr ''anime'' \<and>
              list_ex (\<lambda>t. t \<in> set [JStr ''video'', JStr ''media'', JStr ''streaming''])
                (doc_tags md)
        then Some WATCHING
      else if doc_field md ''category'' = JStr ''music'' then Some LISTENING
      else if doc_field md ''category'' = JStr ''videos'' then Some WATCHING
      else None)"

text \<open>The two categories whose branch reads the tags.\<close>

definition needs_tags :: "jsval \<Rightarrow> bool" where
  "needs_tags md =
     (doc_field md ''category'' = JStr ''socials'' \<or> doc_field md ''category'' = JStr ''anime'')"

definition has_tag_list :: "jsval \<Rightarrow> bool" where
  "has_tag_list md = (case doc_field md ''tags'' of JArr ts \<Rightarrow> True | other \<Rightarrow> False)"



section \<open>Concrete runs\<close>

text \<open>
  An environment in which the host knows YouTube and the companion's own placeholder
  application, the metadata repository answers with a failure status, the fallback
  category is Watching, and buttons are shown with the view-channel button hidden.
\<close>

definition youtube :: PublicApp where
  "youtube = \<lparr>app_id = ''463097721130188830'', app_name = ''YouTube'', app_icon = ''icon'',
     app_statusType = None, app_flags = 0\<rparr>"

definition premid :: PublicApp where
  "premid = \<lparr>app_id = ''503557087041683458'', app_name = ''PreMiD'', app_icon = ''icon'',
     app_statusType = None, app_flags = 0\<rparr>"

definition ex_store :: settings where
  "ex_store = \<lparr>showButtons = True, manualShare = False, hideViewChannel = True,
     statusType = Some WATCHING\<rparr>"

definition ex_env :: env where
  "ex_env = \<lparr>store = ex_store,
     lookupRpcApp = (\<lambda>i. if i = ''503557087041683458'' then Some premid else Some youtube),
     fetch = (\<lambda>u. Some \<lparr>ok = False, json = None\<rparr>),
     getAsset = (\<lambda>i k. Some (''mp:'' @ k)), Date_now = 1700000000123\<rparr>"

definition ex_state :: cache_state where
  "ex_state = \<lparr>apps = Map.empty, calls = []\<rparr>"

definition youtube_watching :: PublicApp where
  "youtube_watching = youtube\<lparr>app_statusType := Some WATCHING\<rparr>"

definition ex_state_after :: cache_state where
  "ex_state_after = \<lparr>apps = [''463097721130188830'' \<mapsto> youtube_watching],
     calls = [Lookup ''463097721130188830'',
       Fetch ''https://raw.githubusercontent.com/PreMiD/Presences/main/websites/Y/YouTube/metadata.json'']\<rparr>"

text \<open>A payload with two buttons and their URLs, and the activity it becomes.\<close>

definition ex_activity :: RawActivity where
  "ex_activity = \<lparr>application_id = ''463097721130188830'', state = ''by someone'',
     details = Some ''A video'', timestamps = None, assets = None,
     buttons = Some [''Watch'', ''Subscribe''],
     metadata = Some \<lparr>button_urls = Some [''https://a'', ''https://b'']\<rparr>\<rparr>"

definition ex_result :: obj where
  "ex_result =
     [(''application_id'', JStr ''463097721130188830''), (''name'', JStr ''YouTube''),
      (''details'', JStr ''A video''), (''state'', JStr ''by someone''),
      (''type'', JNum 3), (''flags'', JNum 1),
      (''assets'', JObj
         [(''large_image'', JStr ''mp:guh''), (''small_image'', JStr ''mp:guhh''),
          (''small_text'', JStr ''hello there :3'')]),
      (''buttons'', JArr [JStr ''Watch''])]"

text \<open>The same payload without buttons.\<close>

definition plain_activity :: RawActivity where
  "plain_activity = \<lparr>application_id = ''463097721130188830'', state = ''by someone'',
     details = Some ''A video'', timestamps = None, assets = None, buttons = None,
     metadata = None\<rparr>"

definition plain_result :: obj where
  "plain_result =
     [(''application_id'', JStr ''463097721130188830''), (''name'', JStr ''YouTube''),
      (''details'', JStr ''A video''), (''state'', JStr ''by someone''),
      (''type'', JNum 3), (''flags'', JNum 1),
      (''assets'', JObj
         [(''large_image'', JStr ''mp:guh''), (''small_image'', JStr ''mp:guhh''),
          (''small_text'', JStr ''hello there :3'')])]"

text \<open>
  A payload with nothing but the identifier, under settings with no fallback category
  and the view-channel button shown.
\<close>

definition playing_env :: env where
  "playing_env = ex_env\<lparr>store := \<lparr>showButtons = True, manualShare = False,
     hideViewChannel = False, statusType = None\<rparr>\<rparr>"

definition bare_activity :: RawActivity where
  "bare_activity = \<lparr>application_id = ''463097721130188830'', state = [],
     details = None, timestamps = None, assets = None, buttons = Some [], metadata = None\<rparr>"

definition bare_result :: obj where
  "bare_result =
     [(''application_id'', JStr ''463097721130188830''), (''name'', JStr ''YouTube''),
      (''type'', JNum 0), (''flags'', JNum 1),
      (''assets'', JObj
         [(''large_image'', JStr ''mp:guh''), (''large_text'', JStr ''vcMiD v1.2.0''),
          (''small_image'', JStr ''mp:guhh''), (''small_text'', JStr ''hello there :3'')])]"

definition bare_state :: cache_state where
  "bare_state = \<lparr>apps = [''463097721130188830'' \<mapsto> youtube],
     calls = [Lookup ''463097721130188830'',
       Fetch ''https://raw.githubusercontent.com/PreMiD/Presences/main/websites/Y/YouTube/metadata.json'']\<rparr>"

text \<open>Payloads with timestamps; the clock of \<open>ex_env\<close> reads 1700000000 seconds.\<close>

definition started_activity :: RawActivity where
  "started_activity =
     ex_activity\<lparr>timestamps := Some \<lparr>ts_start = Some 1699999875, ts_end = None\<rparr>\<rparr>"

definition ending_activity :: RawActivity where
  "ending_activity =
     ex_activity\<lparr>timestamps := Some \<lparr>ts_start = None, ts_end = Some 1700000065\<rparr>\<rparr>"

definition ranged_activity :: RawActivity where
  "ranged_activity =
     ex_activity\<lparr>timestamps := Some \<lparr>ts_start = Some 1699999875, ts_end = Some 1700000065\<rparr>\<rparr>"

definition zero_activity :: RawActivity where
  "zero_activity = ex_activity\<lparr>timestamps := Some \<lparr>ts_start = Some 0, ts_end = None\<rparr>\<rparr>"

definition started_result :: obj where
  "started_result =
     [(''application_id'', JStr ''463097721130188830''), (''name'', JStr ''YouTube''),
      (''details'', JStr ''A video''), (''state'', JStr ''by someone''),
      (''type'', JNum 3), (''flags'', JNum 1),
      (''assets'', JObj
         [(''large_image'', JStr ''mp:guh''), (''small_image'', JStr ''mp:guhh''),
          (''small_text'', JStr ''hello there :3''), (''large_text'', JStr ''02:05 elapsed'')]),
      (''buttons'', JArr [JStr ''Watch'']),
      (''timestamps'', JObj [(''start'', JNum 1699999875)])]"

definition ending_result :: obj where
  "ending_result =
     [(''application_id'', JStr ''463097721130188830''), (''name'', JStr ''YouTube''),
      (''details'', JStr ''A video''), (''state'', JStr ''by someone''),
      (''type'', JNum 3), (''flags'', JNum 1),
      (''assets'', JObj
         [(''large_image'', JStr ''mp:guh''), (''small_image'', JStr ''mp:guhh''),
          (''small_text'', JStr ''hello there :3''), (''large_text'', JStr ''01:05 left'')]),
      (''buttons'', JArr [JStr ''Watch'']),
      (''timestamps'', JObj [(''end'', JNum 1700000065)])]"

definition ranged_result :: obj where
  "ranged_result = ex_result @
     [(''timestamps'', JObj [(''start'', JNum 1699999875), (''end'', JNum 1700000065)])]"

text \<open>The same environment with the clock at 125 seconds after the epoch.\<close>

definition early_env :: env where
  "early_env = ex_env\<lparr>Date_now := 125000\<rparr>"

text \<open>A payload of the placeholder application.\<close>

definition premid_activity :: RawActivity where
  "premid_activity = ex_activity\<lparr>application_id := ''503557087041683458''\<rparr>"

definition premid_state :: cache_state where
  "premid_state =
     \<lparr>apps = [''503557087041683458'' \<mapsto> premid\<lparr>app_statusType := Some WATCHING\<rparr>],
      calls = [Lookup ''503557087041683458'',
        Fetch ''https://raw.githubusercontent.com/PreMiD/Presences/main/websites/P/PreMiD/metadata.json'']\<rparr>"

text \<open>Metadata documents, and the environment whose repository answers with one.\<close>

definition socials_doc :: jsval where
  "socials_doc = JObj [(''category'', JStr ''socials'')]"

definition anime_doc :: jsval where
  "anime_doc =
     JObj [(''category'', JStr ''anime''), (''tags'', JArr [JStr ''anime'', JStr ''streaming''])]"

definition doc_env :: "jsval \<Rightarrow> env" where
  "doc_env md = ex_env\<lparr>fetch := (\<lambda>u. Some \<lparr>ok = True, json = Some md\<rparr>)\<rparr>"

text \<open>An open text bridge with nothing sent yet.\<close>

definition open_bridge :: bridge where
  "open_bridge = \<lparr>readyState = OPEN, sent = [], override = False,
     connect_registered = True, preSend_registered = True\<rparr>"

lemmas ex_defs = ex_env_def ex_state_def ex_activity_def youtube_def premid_def ex_store_def
  youtube_watching_def ex_state_after_def ex_result_def plain_activity_def plain_result_def
  playing_env_def bare_activity_def bare_result_def bare_state_def started_activity_def
  ending_activity_def ranged_activity_def zero_activity_def started_result_def
  ending_result_def ranged_result_def premid_activity_def premid_state_def early_env_def

lemmas getApp_defs = getApp_def determineStatusType_def status_of_response_def
  pick_statusType_def metadata_url_def is_letter_def is_digit_def Let_def

lemmas run_defs = getActivity_def getApp_defs getAppAsset_def large_key_def small_key_def
  prune_def prune_key_def assemble_def timestamps_step_def buttons_step_def
  first_button_only_def playing_step_def initial_activity_def obj_get_def obj_set_def
  activity_type_def small_caption_def INSTANCE_def set_large_text_def timestamps_val_def
  now_seconds_def version_def

lemmas fmt_defs = formatTime_def js_rem_def toString_def padStart_def nat_toString.simps
  digit_char_def

section \<open>Objects and the pruning loop\<close>

lemma map_of_obj_set: "map_of (obj_set k v a) = (map_of a)(k \<mapsto> v)"
  by (simp add: obj_set_def update_conv')

lemma obj_get_obj_set: "obj_get (obj_set k v a) k' = (if k' = k then v else obj_get a k')"
  by (simp add: obj_get_def map_of_obj_set)

lemma distinct_obj_set: "distinct (map fst a) \<Longrightarrow> distinct (map fst (obj_set k v a))"
  by (simp add: obj_set_def distinct_update)

lemma obj_set_Nil: "obj_set k v [] = [(k, v)]"
  by (simp add: obj_set_def)

lemma obj_get_absent: "map_of a k = None \<Longrightarrow> obj_get a k = JUndefined"
  by (simp add: obj_get_def)

lemma obj_get_present: "map_of a k = Some v \<Longrightarrow> obj_get a k = v"
  by (simp add: obj_get_def)

lemma obj_get_in: "distinct (map fst a) \<Longrightarrow> (k, v) \<in> set a \<Longrightarrow> obj_get a k = v"
  by (simp add: obj_get_def)

lemma prune_key_alt:
  "prune_key k a = (if k = ''type'' \<or> keeps (obj_get a k) then a else AList.delete k a)"
  by (auto simp: prune_key_def keeps_def Let_def)

text \<open>
  The loop over any list of keys is a filter: an entry goes when its key is visited, is
  not \<^verbatim>\<open>type\<close>, and its value is not kept.
\<close>

lemma fold_prune_key:
  "distinct (map fst a) \<Longrightarrow>
   fold prune_key ks a = filter (\<lambda>(k, v). k \<notin> set ks \<or> k = ''type'' \<or> keeps v) a"
proof (induction ks arbitrary: a)
  case Nil
  then show ?case by simp
next
  case (Cons k ks)
  show ?case
  proof (cases "k = ''type'' \<or> keeps (obj_get a k)")
    case True
    then have "fold prune_key (k # ks) a = fold prune_key ks a"
      by (simp add: prune_key_alt)
    also have "\<dots> = filter (\<lambda>(k, v). k \<notin> set ks \<or> k = ''type'' \<or> keeps v) a"
      using Cons by simp
    also have "\<dots> = filter (\<lambda>(k', v). k' \<notin> set (k # ks) \<or> k' = ''type'' \<or> keeps v) a"
      using True Cons.prems by (intro filter_cong) (auto simp: obj_get_in)
    finally show ?thesis .
  next
    case False
    have d: "distinct (map fst (AList.delete k a))"
      using Cons.prems by (simp add: distinct_delete)
    from False have "fold prune_key (k # ks) a = fold prune_key ks (AList.delete k a)"
      by (simp add: prune_key_alt)
    also have "\<dots> =
        filter (\<lambda>(k, v). k \<notin> set ks \<or> k = ''type'' \<or> keeps v) (AList.delete k a)"
      using Cons.IH [OF d] .
    also have "\<dots> = filter (\<lambda>(k', v). k' \<notin> set (k # ks) \<or> k' = ''type'' \<or> keeps v) a"
      unfolding AList.delete_eq filter_filter
      using False Cons.prems by (intro filter_cong) (auto simp: obj_get_in)
    finally show ?thesis .
  qed
qed

lemma prune_filter:
  assumes d: "distinct (map fst a)"
  shows "prune a = filter (\<lambda>(k, v). k = ''type'' \<or> keeps v) a"
proof -
  have "filter (\<lambda>(k, v). k \<notin> set (map fst a) \<or> k = ''type'' \<or> keeps v) a =
        filter (\<lambda>(k, v). k = ''type'' \<or> keeps v) a"
    by (rule filter_cong) force+
  then show ?thesis
    using fold_prune_key [OF d] by (simp add: prune_def)
qed

lemma map_of_prune:
  assumes "distinct (map fst a)"
  shows "map_of (prune a) k =
         (case map_of a k of
            None \<Rightarrow> None
          | Some v \<Rightarrow> if k = ''type'' \<or> keeps v then Some v else None)"
proof -
  have "map_of (filter (\<lambda>(k, v). k = ''type'' \<or> keeps v) a) k =
        (case map_of a k of
           None \<Rightarrow> None
         | Some v \<Rightarrow> if k = ''type'' \<or> keeps v then Some v else None)"
    using assms
    by (induction a) (auto split: option.splits simp: rev_image_eqI map_of_eq_None_iff)
  then show ?thesis by (simp add: prune_filter assms)
qed

lemma keeps_JObj_no_length: "map_of A ''length'' = None \<Longrightarrow> keeps (JObj A)"
  by (simp add: keeps_def obj_get_def)

section \<open>The assembled activity\<close>

lemma distinct_set_large_text:
  "distinct (map fst a) \<Longrightarrow> distinct (map fst (set_large_text c a))"
  by (simp add: set_large_text_def distinct_obj_set split: jsval.splits)

lemma distinct_initial: "distinct (map fst (initial_activity appInfo pm li si))"
  by (simp add: initial_activity_def)

lemma distinct_playing_step:
  "distinct (map fst a) \<Longrightarrow> distinct (map fst (playing_step pm li si a))"
  by (simp add: playing_step_def distinct_obj_set)

lemma distinct_buttons_step:
  "distinct (map fst a) \<Longrightarrow> distinct (map fst (buttons_step e appInfo pm a))"
  by (simp add: buttons_step_def first_button_only_def Let_def distinct_obj_set
      split: option.splits jsval.splits)

lemma distinct_timestamps_step:
  "distinct (map fst a) \<Longrightarrow> distinct (map fst (timestamps_step e pm a))"
  by (simp add: timestamps_step_def Let_def distinct_obj_set distinct_set_large_text
      split: option.splits)

lemma distinct_assemble: "distinct (map fst (assemble e appInfo pm li si))"
  by (simp add: assemble_def distinct_timestamps_step distinct_buttons_step
      distinct_playing_step distinct_initial)

text \<open>A run that returns an activity resolved an application and pruned what it assembled.\<close>

lemma getActivity_Some:
  assumes "getActivity e s pm = Inr (Some act, s')"
  obtains appInfo li si where
    "getApp e s (application_id pm) = Inr (appInfo, s')"
    "app_name appInfo \<noteq> []" "app_name appInfo \<noteq> ''PreMiD''"
    "act = prune (assemble e appInfo pm li si)"
  using assms
  by (auto simp: getActivity_def split: sum.splits if_splits prod.splits)

lemma type_code_inj: "type_code t = type_code u \<Longrightarrow> t = u"
  by (cases t; cases u) simp_all

text \<open>The category code is written once and never touched again.\<close>

lemma map_of_set_large_text_other:
  "k \<noteq> ''assets'' \<Longrightarrow> map_of (set_large_text c a) k = map_of a k"
  by (simp add: set_large_text_def map_of_obj_set split: jsval.splits)

lemma type_initial:
  "map_of (initial_activity appInfo pm li si) ''type'' =
     Some (JNum (type_code (activity_type appInfo)))"
  by (simp add: initial_activity_def)

lemma type_playing_step: "map_of (playing_step pm li si a) ''type'' = map_of a ''type''"
  by (simp add: playing_step_def map_of_obj_set)

lemma type_buttons_step: "map_of (buttons_step e appInfo pm a) ''type'' = map_of a ''type''"
  by (simp add: buttons_step_def first_button_only_def Let_def map_of_obj_set
      split: option.splits jsval.splits)

lemma type_timestamps_step: "map_of (timestamps_step e pm a) ''type'' = map_of a ''type''"
  by (simp add: timestamps_step_def Let_def map_of_obj_set map_of_set_large_text_other
      split: option.splits)

lemma type_assemble:
  "map_of (assemble e appInfo pm li si) ''type'' =
     Some (JNum (type_code (activity_type appInfo)))"
  by (simp add: assemble_def type_timestamps_step type_buttons_step type_playing_step
      type_initial)

lemma type_returned:
  assumes "act = prune (assemble e appInfo pm li si)"
  shows "map_of act ''type'' = Some (JNum (type_code (activity_type appInfo)))"
  unfolding assms map_of_prune [OF distinct_assemble] by (simp add: type_assemble)

text \<open>The timestamp field: nothing sets it before lines 307-327.\<close>

lemma timestamps_before:
  "map_of (buttons_step e appInfo pm (playing_step pm li si (initial_activity appInfo pm li si)))
     ''timestamps'' = None"
proof -
  have "map_of (initial_activity appInfo pm li si) ''timestamps'' = None"
    by (simp add: initial_activity_def)
  then have
    "map_of (playing_step pm li si (initial_activity appInfo pm li si)) ''timestamps'' = None"
    by (simp add: playing_step_def map_of_obj_set)
  then show ?thesis
    by (simp add: buttons_step_def first_button_only_def Let_def map_of_obj_set
        split: option.splits jsval.splits)
qed

lemma timestamps_step_map:
  assumes "map_of a ''timestamps'' = None"
  shows "map_of (timestamps_step e pm a) ''timestamps'' = spec_timestamps (timestamps pm)"
proof -
  have u: "obj_get a ''timestamps'' = JUndefined"
    "obj_get (set_large_text c a) ''timestamps'' = JUndefined" for c
    using assms by (simp_all add: obj_get_absent map_of_set_large_text_other)
  show ?thesis
    unfolding timestamps_step_def spec_timestamps_def
    by (simp add: Let_def map_of_obj_set u obj_set_Nil assms split: option.splits)
qed

lemma timestamps_assemble:
  "map_of (assemble e appInfo pm li si) ''timestamps'' = spec_timestamps (timestamps pm)"
  unfolding assemble_def by (rule timestamps_step_map) (rule timestamps_before)

lemma keeps_timestamps: "spec_timestamps t = Some v \<Longrightarrow> keeps v"
  by (auto simp: spec_timestamps_def keeps_def timestamps_val_def obj_get_def
      split: option.splits)

lemma timestamps_returned:
  assumes "getActivity e s pm = Inr (Some act, s')"
  shows "map_of act ''timestamps'' = spec_timestamps (timestamps pm)"
proof -
  from assms obtain appInfo li si where
    act: "act = prune (assemble e appInfo pm li si)"
    by (rule getActivity_Some)
  show ?thesis
    unfolding act map_of_prune [OF distinct_assemble] timestamps_assemble
    by (simp add: keeps_timestamps split: option.splits)
qed

text \<open>The assets of an activity that is not Playing, before and after lines 307-327.\<close>

lemma assets_before:
  assumes "activity_type appInfo \<noteq> PLAYING"
  shows "map_of (buttons_step e appInfo pm
           (playing_step pm li si (initial_activity appInfo pm li si))) ''assets'' =
         Some (JObj (base_assets pm li si))"
proof -
  have i: "map_of (initial_activity appInfo pm li si) ''assets'' =
      Some (JObj (base_assets pm li si))"
    by (simp add: initial_activity_def base_assets_def)
  have "type_code (activity_type appInfo) \<noteq> type_code PLAYING"
    using assms type_code_inj by blast
  then have "playing_step pm li si (initial_activity appInfo pm li si) =
      initial_activity appInfo pm li si"
    by (simp add: playing_step_def obj_get_present [OF type_initial])
  with i show ?thesis
    by (simp add: buttons_step_def first_button_only_def Let_def map_of_obj_set
        split: option.splits jsval.splits)
qed

lemma timestamps_step_assets:
  assumes "map_of a ''assets'' = Some (JObj A)"
      and "map_of a ''type'' = Some (JNum (type_code WATCHING))"
  shows "map_of (timestamps_step e pm a) ''assets'' =
     (case timestamps pm of
        None \<Rightarrow> Some (JObj A)
      | Some ts \<Rightarrow>
          (case truthy_num (ts_start ts) of
             Some x \<Rightarrow>
               (case truthy_num (ts_end ts) of
                  Some y \<Rightarrow> Some (JObj A)
                | None \<Rightarrow>
                    Some (JObj (obj_set ''large_text''
                      (JStr (formatTime (now_seconds e - x) @ '' elapsed'')) A)))
           | None \<Rightarrow>
               (case truthy_num (ts_end ts) of
                  Some y \<Rightarrow>
                    Some (JObj (obj_set ''large_text''
                      (JStr (formatTime (y - now_seconds e) @ '' left'')) A))
                | None \<Rightarrow> Some (JObj A))))"
proof -
  have g: "obj_get a ''assets'' = JObj A" "obj_get a ''type'' = JNum (type_code WATCHING)"
    using assms by (simp_all add: obj_get_present)
  show ?thesis
    unfolding timestamps_step_def
    by (simp add: Let_def map_of_obj_set g set_large_text_def assms split: option.splits)
qed

text \<open>What a Watching activity carries as its large-image caption.\<close>

lemma watching_large_text:
  assumes run: "getActivity e s pm = Inr (Some act, s')"
      and ty: "map_of act ''type'' = Some (JNum (type_code WATCHING))"
  shows "large_text_of act =
     (case timestamps pm of
        None \<Rightarrow> None
      | Some ts \<Rightarrow>
          (case truthy_num (ts_start ts) of
             Some x \<Rightarrow>
               (case truthy_num (ts_end ts) of
                  Some y \<Rightarrow> None
                | None \<Rightarrow> Some (JStr (formatTime (now_seconds e - x) @ '' elapsed'')))
           | None \<Rightarrow>
               (case truthy_num (ts_end ts) of
                  Some y \<Rightarrow> Some (JStr (formatTime (y - now_seconds e) @ '' left''))
                | None \<Rightarrow> None)))"
proof -
  from run obtain appInfo li si where
    act: "act = prune (assemble e appInfo pm li si)"
    by (rule getActivity_Some)
  note d = distinct_assemble [of e appInfo pm li si]
  have w: "activity_type appInfo = WATCHING"
    using ty type_returned [OF act] type_code_inj by simp
  let ?B = "buttons_step e appInfo pm (playing_step pm li si (initial_activity appInfo pm li si))"
  have B: "map_of ?B ''assets'' = Some (JObj (base_assets pm li si))"
    "map_of ?B ''type'' = Some (JNum (type_code WATCHING))"
    using w by (simp_all add: assets_before type_buttons_step type_playing_step type_initial)
  note A = timestamps_step_assets [OF B, of e pm, folded assemble_def]
  have k: "map_of act ''assets'' = map_of (assemble e appInfo pm li si) ''assets''"
    unfolding act map_of_prune [OF d] A
    by (simp add: keeps_JObj_no_length base_assets_def obj_set_def split: option.splits)
  show ?thesis
    unfolding large_text_of_def k A
    by (simp add: base_assets_def obj_set_def split: option.splits)
qed

section \<open>Concrete runs, evaluated\<close>

lemma getApp_example:
  "getApp ex_env ex_state ''463097721130188830'' = Inr (youtube_watching, ex_state_after)"
  by (simp add: ex_defs getApp_defs)

lemma getApp_premid:
  "getApp ex_env ex_state (application_id premid_activity) =
     Inr (premid\<lparr>app_statusType := Some WATCHING\<rparr>, premid_state)"
  by (simp add: ex_defs getApp_defs)

lemma run_ex: "getActivity ex_env ex_state ex_activity = Inr (Some ex_result, ex_state_after)"
  by (simp add: run_defs ex_defs)

lemma run_plain:
  "getActivity ex_env ex_state plain_activity = Inr (Some plain_result, ex_state_after)"
  by (simp add: run_defs ex_defs)

lemma run_bare:
  "getActivity playing_env ex_state bare_activity = Inr (Some bare_result, bare_state)"
  by (simp add: run_defs ex_defs)



lemma run_ranged:
  "getActivity ex_env ex_state ranged_activity = Inr (Some ranged_result, ex_state_after)"
  by (simp add: run_defs ex_defs)

lemma run_zero:
  "getActivity ex_env ex_state zero_activity = Inr (Some ex_result, ex_state_after)"
  by (simp add: run_defs ex_defs)

lemma now_ex: "now_seconds ex_env = 1700000000"
  by (simp add: now_seconds_def ex_env_def)

section \<open>The category of a synthesized activity\<close>

text \<open>
  After a cache miss the category code is the inferred category when that is truthy, and
  otherwise the configured fallback, or Playing when none is configured.
\<close>

lemma resolved_type:
  assumes miss: "apps s (application_id pm) = None"
      and look: "lookupRpcApp e (application_id pm) = Some app"
      and inf: "determineStatusType e app = Inr inferred"
      and run: "getActivity e s pm = Inr (Some act, s')"
  shows "map_of act ''type'' =
           Some (JNum (type_code
             (case pick_statusType inferred (statusType (store e)) of
                None \<Rightarrow> PLAYING | Some t \<Rightarrow> t)))"
proof -
  from run obtain appInfo li si where
    app: "getApp e s (application_id pm) = Inr (appInfo, s')" and
    act: "act = prune (assemble e appInfo pm li si)"
    by (rule getActivity_Some)
  from app miss look inf
  have "app_statusType appInfo = pick_statusType inferred (statusType (store e))"
    by (auto simp: getApp_def Let_def)
  then have "activity_type appInfo =
      (case pick_statusType inferred (statusType (store e)) of None \<Rightarrow> PLAYING | Some t \<Rightarrow> t)"
    by (cases "pick_statusType inferred (statusType (store e))")
       (auto simp: activity_type_def intro: type_code_inj)
  then show ?thesis
    by (simp add: type_returned [OF act])
qed

lemma inferred_category_used:
  assumes "apps s (application_id pm) = None"
      and "lookupRpcApp e (application_id pm) = Some app"
      and "determineStatusType e app = Inr (Some t)" and "t \<noteq> PLAYING"
      and "getActivity e s pm = Inr (Some act, s')"
  shows "map_of act ''type'' = Some (JNum (type_code t))"
proof -
  have "type_code t \<noteq> 0" using assms(4) by (cases t) simp_all
  then show ?thesis
    using resolved_type [OF assms(1,2,3,5)] by (simp add: pick_statusType_def)
qed

lemma no_inference_gives_fallback:
  assumes "apps s (application_id pm) = None"
      and "lookupRpcApp e (application_id pm) = Some app"
      and "determineStatusType e app = Inr None"
      and "getActivity e s pm = Inr (Some act, s')"
  shows "map_of act ''type'' =
           Some (JNum (type_code (case statusType (store e) of None \<Rightarrow> PLAYING | Some d \<Rightarrow> d)))"
  using resolved_type [OF assms] by (simp add: pick_statusType_def)

lemma inferred_playing_gives_fallback:
  assumes "apps s (application_id pm) = None"
      and "lookupRpcApp e (application_id pm) = Some app"
      and "determineStatusType e app = Inr (Some PLAYING)"
      and "statusType (store e) = Some d"
      and "getActivity e s pm = Inr (Some act, s')"
  shows "map_of act ''type'' = Some (JNum (type_code d))"
  using resolved_type [OF assms(1,2,3,5)] assms(4) by (simp add: pick_statusType_def)

text \<open>
  Claim C1: an inferred category is used as the category code, an inferred Playing
  included; the configured default is used only when nothing was inferred.

  The code does not do this for Playing. In \<open>ex_env\<close> the metadata fetch fails, so the
  inferred category is Playing, and the configured fallback is Watching: the activity
  comes out with code 3, Watching. The lemmas above give the general picture: an
  inferred Listening, Watching or Competing is used, no inference gives the fallback,
  and an inferred Playing gives the fallback too.
\<close>

theorem inferred_playing_replaced:
  "determineStatusType ex_env youtube = Inr (Some PLAYING) \<and>
   statusType (store ex_env) = Some WATCHING \<and>
   getActivity ex_env ex_state plain_activity = Inr (Some plain_result, ex_state_after) \<and>
   map_of plain_result ''type'' = Some (JNum (type_code WATCHING))"
  using run_plain
  by (simp add: determineStatusType_def status_of_response_def ex_env_def ex_store_def
      plain_result_def)

section \<open>Pruning\<close>

text \<open>
  Claim C2: in the activity returned for a payload that is not suppressed, no key other
  than \<^verbatim>\<open>type\<close> holds a value that is falsy or of length zero, and the key \<^verbatim>\<open>type\<close> is
  present, holding a category code (which may be 0, Playing).
\<close>

theorem pruned_fields_absent:
  assumes "getActivity e s pm = Inr (Some act, s')"
  shows "(\<forall>k v. k \<noteq> ''type'' \<and> map_of act k = Some v \<longrightarrow> truthy v \<and> js_length v \<noteq> JNum 0) \<and>
         (\<exists>t. map_of act ''type'' = Some (JNum (type_code t)))"
proof -
  from assms obtain appInfo li si where
    act: "act = prune (assemble e appInfo pm li si)"
    by (rule getActivity_Some)
  have d: "distinct (map fst (assemble e appInfo pm li si))"
    by (rule distinct_assemble)
  have "truthy v \<and> js_length v \<noteq> JNum 0" if "k \<noteq> ''type''" "map_of act k = Some v" for k v
    using that unfolding act map_of_prune [OF d]
    by (auto simp: keeps_def split: option.splits if_splits)
  moreover have "map_of act ''type'' = Some (JNum (type_code (activity_type appInfo)))"
    by (rule type_returned [OF act])
  ultimately show ?thesis by blast
qed

text \<open>
  Witness for C2: a payload with an empty state, no details, an empty button list and no
  metadata, for a Playing application. Those four keys are gone and \<^verbatim>\<open>type\<close> is 0.
\<close>

theorem pruned_fields_absent_witness:
  "getActivity playing_env ex_state bare_activity = Inr (Some bare_result, bare_state) \<and>
   (\<exists>t. map_of bare_result ''type'' = Some (JNum (type_code t))) \<and>
   map_of bare_result ''type'' = Some (JNum 0) \<and>
   map_of bare_result ''state'' = None \<and> map_of bare_result ''details'' = None \<and>
   map_of bare_result ''buttons'' = None \<and> map_of bare_result ''metadata'' = None"
  using pruned_fields_absent [OF run_bare] run_bare
  by (simp add: bare_result_def)

section \<open>Buttons\<close>

lemma timestamps_step_other:
  "k \<noteq> ''timestamps'' \<Longrightarrow> k \<noteq> ''assets'' \<Longrightarrow> map_of (timestamps_step e pm a) k = map_of a k"
  by (simp add: timestamps_step_def Let_def map_of_obj_set map_of_set_large_text_other
      split: option.splits)

lemma metadata_before_buttons:
  "map_of (playing_step pm li si (initial_activity appInfo pm li si)) ''metadata'' = None"
  by (simp add: playing_step_def initial_activity_def map_of_obj_set)

lemma first_button_only_keys:
  assumes "map_of a ''metadata'' = None"
  shows "map_of (first_button_only pm bs a) = (map_of a)(''buttons'' \<mapsto> JArr [first_elem bs])"
proof -
  have "obj_get (obj_set ''buttons'' (JArr [first_elem bs]) a) ''metadata'' = JUndefined"
    using assms by (simp add: obj_get_obj_set obj_get_absent)
  then show ?thesis
    by (simp add: first_button_only_def Let_def map_of_obj_set split: option.splits)
qed

text \<open>
  With buttons shown, the view-channel button hidden and an application named YouTube,
  the activity keeps the first button label and never has a \<^verbatim>\<open>metadata\<close> key, whatever
  URLs came in.
\<close>

lemma only_first_button_kept:
  assumes run: "getActivity e s pm = Inr (Some act, s')"
      and app: "getApp e s (application_id pm) = Inr (appInfo, s'')"
      and yt: "app_name appInfo = ''YouTube''"
      and sb: "showButtons (store e)" and hv: "hideViewChannel (store e)"
      and bs: "buttons pm = Some (b # bs)"
  shows "map_of act ''buttons'' = Some (JArr [JStr b]) \<and> map_of act ''metadata'' = None"
proof -
  from run obtain appInfo' li si where
    app': "getApp e s (application_id pm) = Inr (appInfo', s')" and
    act: "act = prune (assemble e appInfo' pm li si)"
    by (rule getActivity_Some)
  from app app' have same: "appInfo' = appInfo" by simp
  let ?A = "playing_step pm li si (initial_activity appInfo pm li si)"
  have "buttons_step e appInfo pm ?A = first_button_only pm (b # bs) ?A"
    using yt sb hv bs by (simp add: buttons_step_def)
  then have m: "map_of (buttons_step e appInfo pm ?A) =
      (map_of ?A)(''buttons'' \<mapsto> JArr [JStr b])"
    by (simp add: first_button_only_keys [OF metadata_before_buttons])
  have "map_of (assemble e appInfo pm li si) ''buttons'' = Some (JArr [JStr b])"
    "map_of (assemble e appInfo pm li si) ''metadata'' = None"
    by (simp_all add: assemble_def timestamps_step_other m metadata_before_buttons)
  then show ?thesis
    unfolding act same map_of_prune [OF distinct_assemble]
    by (simp add: keeps_def)
qed

text \<open>
  Claim C3: with buttons shown, a non-empty button list, the application YouTube and the
  view-channel button hidden, the activity has exactly the first button label, and when
  the payload carries \<^verbatim>\<open>metadata.button_urls\<close>, exactly the first URL.

  The first half holds. The second does not: the guard on line 297 reads
  \<^verbatim>\<open>activity.metadata\<close>, which nothing has set, so line 298 never runs and the activity has
  no \<^verbatim>\<open>metadata\<close> at all. For the buttons Watch and Subscribe with two URLs:
\<close>

theorem first_url_dropped:
  "showButtons (store ex_env) \<and> hideViewChannel (store ex_env) \<and>
   buttons ex_activity = Some [''Watch'', ''Subscribe''] \<and>
   metadata ex_activity = Some \<lparr>button_urls = Some [''https://a'', ''https://b'']\<rparr> \<and>
   getActivity ex_env ex_state ex_activity = Inr (Some ex_result, ex_state_after) \<and>
   map_of ex_result ''name'' = Some (JStr ''YouTube'') \<and>
   map_of ex_result ''buttons'' = Some (JArr [JStr ''Watch'']) \<and>
   map_of ex_result ''metadata'' = None"
  using run_ex
  by (simp add: ex_env_def ex_store_def ex_activity_def ex_result_def)

section \<open>Category inference\<close>

lemma js_prop_doc_field:
  assumes "md \<noteq> JNull" "md \<noteq> JUndefined" "k \<noteq> ''length''"
  shows "js_prop md k = Inr (doc_field md k)"
  using assms by (cases md) (simp_all add: doc_field_def)

text \<open>
  On a document that is not \<^verbatim>\<open>null\<close> and whose tags, where the switch reads them, are a
  list, the switch computes the specification's table.
\<close>

lemma category_switch_listed:
  assumes "md \<noteq> JNull" "md \<noteq> JUndefined" "needs_tags md \<longrightarrow> has_tag_list md"
  shows "category_switch md = Inr (spec_category md)"
proof -
  have c: "js_prop md ''category'' = Inr (doc_field md ''category'')"
    and t: "js_prop md ''tags'' = Inr (doc_field md ''tags'')"
    using assms(1,2) by (simp_all add: js_prop_doc_field)
  show ?thesis
  proof (cases "needs_tags md")
    case False
    then show ?thesis
      by (simp add: category_switch_def spec_category_def needs_tags_def c)
  next
    case True
    with assms(3) obtain ts where ts: "doc_field md ''tags'' = JArr ts"
      by (auto simp: has_tag_list_def split: jsval.splits)
    then show ?thesis
      by (simp add: category_switch_def spec_category_def c t doc_tags_def)
  qed
qed

text \<open>A socials or anime document with no tags field makes the switch throw.\<close>

lemma category_switch_no_tags:
  assumes "needs_tags md" "doc_field md ''tags'' = JUndefined"
  shows "category_switch md = Inl TypeError"
proof -
  from assms(1) obtain kv where md: "md = JObj kv"
    by (cases md) (simp_all add: needs_tags_def doc_field_def)
  with assms show ?thesis
    by (auto simp: category_switch_def needs_tags_def doc_field_def)
qed

text \<open>
  Claim C4, as amended. For the response the metadata fetch resolves to: a non-success
  status yields Playing; a body that does not parse yields Playing; a parsed document
  other than \<^verbatim>\<open>null\<close> whose category is neither socials nor anime, or whose tags are a
  list, yields what the specification's table says (Watching for socials with a video
  tag, Watching for anime with a video, media or streaming tag, Listening for music,
  Watching for videos, nothing otherwise); and a parsed socials or anime document with
  no tags field yields Playing, since the \<^verbatim>\<open>catch\<close> covers the switch as well as the
  parse.
\<close>

theorem category_inference:
  assumes "fetch e (metadata_url (app_name info)) = Some res"
  shows "(\<not> ok res \<longrightarrow> determineStatusType e info = Inr (Some PLAYING)) \<and>
         (ok res \<and> json res = None \<longrightarrow> determineStatusType e info = Inr (Some PLAYING)) \<and>
         (\<forall>md. ok res \<and> json res = Some md \<and> md \<noteq> JNull \<and> md \<noteq> JUndefined \<and>
               (needs_tags md \<longrightarrow> has_tag_list md) \<longrightarrow>
               determineStatusType e info = Inr (spec_category md)) \<and>
         (\<forall>md. ok res \<and> json res = Some md \<and> needs_tags md \<and>
               doc_field md ''tags'' = JUndefined \<longrightarrow>
               determineStatusType e info = Inr (Some PLAYING))"
  using assms
  by (auto simp: determineStatusType_def status_of_response_def try_metadata_def
      category_switch_listed category_switch_no_tags)

text \<open>
  Counterexample to C4 as stated: the document \<^verbatim>\<open>{"category": "socials"}\<close> parses, is
  not socials with a video tag, and so should yield no category; the code yields Playing.
\<close>

theorem category_inference_counterexample:
  "determineStatusType (doc_env socials_doc) youtube = Inr (Some PLAYING) \<and>
   spec_category socials_doc = None"
  by (simp add: determineStatusType_def status_of_response_def try_metadata_def
      category_switch_def doc_env_def socials_doc_def ex_env_def spec_category_def
      doc_field_def doc_tags_def obj_get_def)

lemma fetch_doc_env: "fetch (doc_env md) u = Some \<lparr>ok = True, json = Some md\<rparr>"
  by (simp add: doc_env_def)

text \<open>
  Witness for C4: an anime document tagged streaming yields Watching, the socials
  document without tags yields Playing, and a failure status yields Playing.
\<close>

theorem category_inference_witness:
  "determineStatusType (doc_env anime_doc) youtube = Inr (Some WATCHING) \<and>
   determineStatusType (doc_env socials_doc) youtube = Inr (Some PLAYING) \<and>
   determineStatusType ex_env youtube = Inr (Some PLAYING)"
proof -
  have a: "ok \<lparr>ok = True, json = Some anime_doc\<rparr> \<and>
        json \<lparr>ok = True, json = Some anime_doc\<rparr> = Some anime_doc \<and>
        anime_doc \<noteq> JNull \<and> anime_doc \<noteq> JUndefined \<and>
        (needs_tags anime_doc \<longrightarrow> has_tag_list anime_doc)"
    by (simp add: anime_doc_def has_tag_list_def doc_field_def obj_get_def)
  have s: "ok \<lparr>ok = True, json = Some socials_doc\<rparr> \<and>
        json \<lparr>ok = True, json = Some socials_doc\<rparr> = Some socials_doc \<and>
        needs_tags socials_doc \<and> doc_field socials_doc ''tags'' = JUndefined"
    by (simp add: socials_doc_def needs_tags_def doc_field_def obj_get_def)
  have v: "spec_category anime_doc = Some WATCHING"
    by (simp add: anime_doc_def spec_category_def doc_field_def doc_tags_def obj_get_def)
  have f: "fetch ex_env (metadata_url (app_name youtube)) = Some \<lparr>ok = False, json = None\<rparr>"
    by (simp add: ex_env_def)
  from category_inference [OF fetch_doc_env, of anime_doc youtube] a v
  have 1: "determineStatusType (doc_env anime_doc) youtube = Inr (Some WATCHING)" by metis
  from category_inference [OF fetch_doc_env, of socials_doc youtube] s
  have 2: "determineStatusType (doc_env socials_doc) youtube = Inr (Some PLAYING)" by metis
  from category_inference [OF f]
  have 3: "determineStatusType ex_env youtube = Inr (Some PLAYING)" by simp
  from 1 2 3 show ?thesis by simp
qed

section \<open>Timestamps and captions\<close>





lemma formatTime_long: "formatTime 6000 = ''100:00''"
  by (simp add: fmt_defs)

lemma formatTime_negative: "formatTime (- 5) = ''-1:-5''"
  by (simp add: fmt_defs)

lemma formatTime_125: "formatTime 125 = ''02:05''"
  by (simp add: fmt_defs)

lemma formatTime_65: "formatTime 65 = ''01:05''"
  by (simp add: fmt_defs)








text \<open>
  Claim C6: when start and end are both set (truthy), the returned activity's
  \<^verbatim>\<open>timestamps\<close> is the pair as it came; when the payload has neither, the returned
  activity has no \<^verbatim>\<open>timestamps\<close> key.
\<close>

theorem timestamps_copied_or_omitted:
  assumes "getActivity e s pm = Inr (Some act, s')"
  shows "(\<forall>a b. timestamps pm = Some \<lparr>ts_start = Some a, ts_end = Some b\<rparr> \<and> a \<noteq> 0 \<and> b \<noteq> 0 \<longrightarrow>
            map_of act ''timestamps'' = Some (JObj [(''start'', JNum a), (''end'', JNum b)])) \<and>
         (timestamps pm = None \<or> timestamps pm = Some \<lparr>ts_start = None, ts_end = None\<rparr> \<longrightarrow>
            map_of act ''timestamps'' = None)"
  unfolding timestamps_returned [OF assms]
  by (auto simp: spec_timestamps_def timestamps_val_def)

text \<open>Witness for C6: one payload with both ends, one with no timestamps.\<close>

theorem timestamps_copied_or_omitted_witness:
  "getActivity ex_env ex_state ranged_activity = Inr (Some ranged_result, ex_state_after) \<and>
   timestamps ranged_activity = Some \<lparr>ts_start = Some 1699999875, ts_end = Some 1700000065\<rparr> \<and>
   map_of ranged_result ''timestamps'' =
     Some (JObj [(''start'', JNum 1699999875), (''end'', JNum 1700000065)]) \<and>
   getActivity ex_env ex_state ex_activity = Inr (Some ex_result, ex_state_after) \<and>
   timestamps ex_activity = None \<and> map_of ex_result ''timestamps'' = None"
proof -
  have h: "timestamps ranged_activity =
      Some \<lparr>ts_start = Some 1699999875, ts_end = Some 1700000065\<rparr>"
    "timestamps ex_activity = None"
    by (simp_all add: ranged_activity_def ex_activity_def)
  from timestamps_copied_or_omitted [OF run_ranged] timestamps_copied_or_omitted [OF run_ex] h
    run_ranged run_ex
  show ?thesis by simp
qed

section \<open>Suppression\<close>

text \<open>
  Claim C7: when the application identifier resolves to a descriptor whose name is empty
  or is \<^verbatim>\<open>PreMiD\<close>, synthesis returns nothing, whatever else the payload holds.
\<close>

theorem placeholder_suppressed:
  assumes "getApp e s (application_id pm) = Inr (appInfo, s')"
      and "app_name appInfo = [] \<or> app_name appInfo = ''PreMiD''"
  shows "getActivity e s pm = Inr (None, s')"
  using assms by (simp add: getActivity_def)

text \<open>Witness for C7: the payload of \<open>ex_activity\<close> under the placeholder's identifier.\<close>

theorem placeholder_suppressed_witness:
  "getApp ex_env ex_state (application_id premid_activity) =
     Inr (premid\<lparr>app_statusType := Some WATCHING\<rparr>, premid_state) \<and>
   app_name (premid\<lparr>app_statusType := Some WATCHING\<rparr>) = ''PreMiD'' \<and>
   getActivity ex_env ex_state premid_activity = Inr (None, premid_state)"
proof -
  have n: "app_name (premid\<lparr>app_statusType := Some WATCHING\<rparr>) = ''PreMiD''"
    by (simp add: premid_def)
  then have "app_name (premid\<lparr>app_statusType := Some WATCHING\<rparr>) = [] \<or>
    app_name (premid\<lparr>app_statusType := Some WATCHING\<rparr>) = ''PreMiD''" by simp
  from placeholder_suppressed [OF getApp_premid this] getApp_premid n show ?thesis by simp
qed

section \<open>The cache\<close>

text \<open>
  Claim C8: once an identifier has been resolved, resolving it again, in whatever
  environment, returns the same descriptor and leaves the state as it was: the cache
  answers, and the list of external lookups does not grow.
\<close>

theorem second_resolution_cached:
  assumes "getApp e s applicationId = Inr (d, s')"
  shows "getApp e' s' applicationId = Inr (d, s') \<and> apps s' applicationId = Some d"
  using assms
  by (auto simp: getApp_def Let_def split: option.splits sum.splits)

text \<open>
  Witness for C8: the first resolution of YouTube makes two external calls, the lookup and
  the fetch; the second returns the same descriptor and the same state.
\<close>

theorem second_resolution_cached_witness:
  "getApp ex_env ex_state ''463097721130188830'' = Inr (youtube_watching, ex_state_after) \<and>
   getApp ex_env ex_state_after ''463097721130188830'' = Inr (youtube_watching, ex_state_after) \<and>
   calls ex_state = [] \<and> length (calls ex_state_after) = 2"
  using second_resolution_cached [OF getApp_example, of ex_env] getApp_example
  by (simp add: ex_state_def ex_state_after_def)

section \<open>A zero start timestamp\<close>

lemma assemble_zero_start:
  assumes "timestamps pm = Some \<lparr>ts_start = Some 0, ts_end = None\<rparr>"
  shows "assemble e appInfo pm li si = assemble e appInfo (pm\<lparr>timestamps := None\<rparr>) li si"
proof -
  let ?pm = "pm\<lparr>timestamps := None\<rparr>"
  have t: "timestamps_step e pm a = a" for a
    using assms by (simp add: timestamps_step_def)
  have t': "timestamps_step e ?pm a = a" for a
    by (simp add: timestamps_step_def)
  have i: "initial_activity appInfo ?pm li si = initial_activity appInfo pm li si"
    by (simp add: initial_activity_def small_caption_def)
  have p: "playing_step ?pm li si a = playing_step pm li si a" for a
    by (simp add: playing_step_def small_caption_def)
  have f: "first_button_only ?pm bs a = first_button_only pm bs a" for bs a
    by (simp add: first_button_only_def)
  have b: "buttons_step e appInfo ?pm a = buttons_step e appInfo pm a" for a
    by (cases "buttons pm") (simp_all add: buttons_step_def f)
  show ?thesis by (simp add: assemble_def t t' i p b)
qed

text \<open>
  Claim C10: a payload whose \<^verbatim>\<open>timestamps\<close> holds a start of 0 and no end is treated as
  one without timestamps: the returned activity has no \<^verbatim>\<open>timestamps\<close> key, it is the very
  activity returned for the payload with \<^verbatim>\<open>timestamps\<close> removed, and when its category is
  Watching it has no large-image caption.
\<close>

theorem zero_start_is_absent:
  assumes "getActivity e s pm = Inr (Some act, s')"
      and "timestamps pm = Some \<lparr>ts_start = Some 0, ts_end = None\<rparr>"
  shows "map_of act ''timestamps'' = None \<and>
         getActivity e s (pm\<lparr>timestamps := None\<rparr>) = Inr (Some act, s') \<and>
         (map_of act ''type'' = Some (JNum (type_code WATCHING)) \<longrightarrow> large_text_of act = None)"
proof -
  have 1: "map_of act ''timestamps'' = None"
    unfolding timestamps_returned [OF assms(1)]
    using assms(2) by (simp add: spec_timestamps_def)
  have 2: "getActivity e s (pm\<lparr>timestamps := None\<rparr>) = Inr (Some act, s')"
    using assms(1) assemble_zero_start [OF assms(2), symmetric]
    by (auto simp: getActivity_def large_key_def small_key_def
        split: sum.splits prod.splits if_splits)
  have 3: "large_text_of act = None"
    if "map_of act ''type'' = Some (JNum (type_code WATCHING))"
    unfolding watching_large_text [OF assms(1) that] using assms(2) by simp
  from 1 2 3 show ?thesis by blast
qed

text \<open>Witness for C10: the Watching payload of \<open>ex_activity\<close> with a start of 0.\<close>

theorem zero_start_is_absent_witness:
  "getActivity ex_env ex_state zero_activity = Inr (Some ex_result, ex_state_after) \<and>
   timestamps zero_activity = Some \<lparr>ts_start = Some 0, ts_end = None\<rparr> \<and>
   map_of ex_result ''timestamps'' = None \<and>
   map_of ex_result ''type'' = Some (JNum (type_code WATCHING)) \<and>
   large_text_of ex_result = None"
proof -
  have h: "timestamps zero_activity = Some \<lparr>ts_start = Some 0, ts_end = None\<rparr>"
    by (simp add: zero_activity_def)
  have t: "map_of ex_result ''type'' = Some (JNum (type_code WATCHING))"
    by (simp add: ex_result_def)
  from zero_start_is_absent [OF run_zero h] h t run_zero show ?thesis by blast
qed

section \<open>The text bridge\<close>

lemma replace_absent:
  "pat \<noteq> [] \<Longrightarrow> \<not> includes_str s pat \<Longrightarrow> replace s pat rep = s"
  by (induction s) auto

lemma units_nonempty: "units ''=/='' \<noteq> []"
  by (simp add: units_def)

text \<open>
  While the socket is still connecting the first \<^verbatim>\<open>ws.send\<close> throws: nothing is sent and
  the message is not cleared. Once it is closing, the calls return, nothing is
  transmitted, and the message is cleared.
\<close>

lemma onSend_connecting:
  assumes "readyState b = CONNECTING" and "\<not> override b"
      and "startsWith (trim (msg_content msg)) (units ''=='')"
  shows "onSend b msg = Inl InvalidStateError"
  using assms
  by (simp add: onSend_def Let_def send_and_clear_def sendTyping_def ws_send_def)

lemma onSend_closing:
  assumes "readyState b = CLOSING" and "\<not> override b"
      and "startsWith (trim (msg_content msg)) (units ''=='')"
  shows "onSend b msg = Inr (msg\<lparr>msg_content := []\<rparr>, b)"
  using assms
  by (simp add: onSend_def Let_def send_and_clear_def sendWsMessage_def sendTyping_def
      ws_send_def)

text \<open>
  Claim C9, as amended. For a message whose trimmed content starts with \<^verbatim>\<open>==\<close>, with
  override off and the socket open: the handler sends \<^verbatim>\<open>typing:false\<close>, then a bridge
  frame, then \<^verbatim>\<open>typing:false\<close>, and clears the message content. The frame's content is
  the message with the first \<^verbatim>\<open>==\<close> removed and then the first \<^verbatim>\<open>=/=\<close> removed; when no
  \<^verbatim>\<open>=/=\<close> is left after the first step, that is the message with the first \<^verbatim>\<open>==\<close> removed.
\<close>

theorem prefixed_message_routed:
  assumes "readyState b = OPEN" and "\<not> override b"
      and "startsWith (trim (msg_content msg)) (units ''=='')"
  shows "onSend b msg =
           Inr (msg\<lparr>msg_content := []\<rparr>,
                b\<lparr>sent := sent b @
                  [Text (units ''typing:false''),
                   Json \<lparr>content =
                           replace (replace (msg_content msg) (units ''=='') []) (units ''=/='') [],
                         sendNow = True, popNoise = True\<rparr>,
                   Text (units ''typing:false'')]\<rparr>) \<and>
         (\<not> includes_str (replace (msg_content msg) (units ''=='') []) (units ''=/='') \<longrightarrow>
            replace (replace (msg_content msg) (units ''=='') []) (units ''=/='') [] =
            replace (msg_content msg) (units ''=='') [])"
  using assms
  by (simp add: onSend_def Let_def send_and_clear_def sendWsMessage_def sendTyping_def
      ws_send_def replace_absent [OF units_nonempty])

text \<open>
  Counterexample to C9 as stated. On an open socket \<^verbatim>\<open>==a=/=b\<close> is sent with the content
  \<^verbatim>\<open>ab\<close>, while the message with the first \<^verbatim>\<open>==\<close> removed is \<^verbatim>\<open>a=/=b\<close>. On a socket that is
  not closed but still connecting, \<^verbatim>\<open>==hello\<close> makes the handler throw: no frame, and the
  message is not cleared.
\<close>

theorem prefixed_message_routed_counterexample:
  "onSend open_bridge \<lparr>msg_content = units ''==a=/=b''\<rparr> =
     Inr (\<lparr>msg_content = []\<rparr>,
          open_bridge\<lparr>sent :=
            [Text (units ''typing:false''),
             Json \<lparr>content = units ''ab'', sendNow = True, popNoise = True\<rparr>,
             Text (units ''typing:false'')]\<rparr>) \<and>
   replace (units ''==a=/=b'') (units ''=='') [] = units ''a=/=b'' \<and>
   units ''ab'' \<noteq> units ''a=/=b'' \<and>
   readyState (open_bridge\<lparr>readyState := CONNECTING\<rparr>) \<noteq> CLOSED \<and>
   onSend (open_bridge\<lparr>readyState := CONNECTING\<rparr>) \<lparr>msg_content = units ''==hello''\<rparr> =
     Inl InvalidStateError"
  by (simp add: onSend_def Let_def send_and_clear_def sendWsMessage_def sendTyping_def
      ws_send_def open_bridge_def startsWith_def trim_def is_space_def units_def)

text \<open>
  Witness for C9: \<^verbatim>\<open>==hello\<close> goes to the bridge as \<^verbatim>\<open>hello\<close>, also behind a no-break
  space, which \<^verbatim>\<open>trim\<close> drops and \<^verbatim>\<open>replace\<close> leaves in place.
\<close>

theorem prefixed_message_routed_witness:
  "readyState open_bridge = OPEN \<and> \<not> override open_bridge \<and>
   startsWith (trim (units ''==hello'')) (units ''=='') \<and>
   onSend open_bridge \<lparr>msg_content = units ''==hello''\<rparr> =
     Inr (\<lparr>msg_content = []\<rparr>,
          open_bridge\<lparr>sent :=
            [Text (units ''typing:false''),
             Json \<lparr>content = units ''hello'', sendNow = True, popNoise = True\<rparr>,
             Text (units ''typing:false'')]\<rparr>) \<and>
   startsWith (trim (0xA0 # units ''==hello'')) (units ''=='') \<and>
   onSend open_bridge \<lparr>msg_content = 0xA0 # units ''==hello''\<rparr> =
     Inr (\<lparr>msg_content = []\<rparr>,
          open_bridge\<lparr>sent :=
            [Text (units ''typing:false''),
             Json \<lparr>content = 0xA0 # units ''hello'', sendNow = True, popNoise = True\<rparr>,
             Text (units ''typing:false'')]\<rparr>)"
proof -
  have h: "readyState open_bridge = OPEN" "\<not> override open_bridge"
    "startsWith (trim (msg_content \<lparr>msg_content = units ''==hello''\<rparr>)) (units ''=='')"
    "startsWith (trim (msg_content \<lparr>msg_content = 0xA0 # units ''==hello''\<rparr>)) (units ''=='')"
    by (simp_all add: open_bridge_def startsWith_def trim_def is_space_def units_def)
  from prefixed_message_routed [OF h(1,2,3)] prefixed_message_routed [OF h(1,2,4)] h
  show ?thesis
    by (simp add: open_bridge_def units_def)
qed

end
